theory Spec2Isabelle
  imports Main "HOL-Library.Word"
begin

section \<open>Shared types\<close>

type_synonym uint32 = "32 word"

text \<open>
  Go errors are values. The two errors built by the repository with \<open>fmt.Errorf\<close> keep
  their arguments; \<open>ErrNotExist\<close> is the one error for which \<open>os.IsNotExist\<close> holds;
  every other failure of the operating system, of the xfs tools, of containerd or of the
  JSON decoder is an \<open>ErrExternal\<close> with its message.
\<close>

datatype error =
    ErrNoAvailableProjectID
  | ErrFailedGetProjid string
  | ErrWrongProjid string uint32 uint32
  | ErrUpperdirNotFound string
  | ErrNotExist
  | ErrExternal string

definition os_IsNotExist :: "error option \<Rightarrow> bool" where
  "os_IsNotExist err = (err = Some ErrNotExist)"

section \<open>pkg/xfs/projectid.go: the project ID pool\<close>

text \<open>
  \<open>used\<close> is Go's \<open>map[uint32]bool\<close>: a missing key reads as \<open>false\<close>
  (\<open>used_at\<close>), \<open>delete\<close> removes the key.
\<close>

record ProjectIDPool =
  used :: "uint32 \<rightharpoonup> bool"
  minID :: uint32
  maxID :: uint32

definition NewProjectIDPool :: "uint32 \<Rightarrow> uint32 \<Rightarrow> ProjectIDPool" where
  "NewProjectIDPool mn mx = \<lparr>used = Map.empty, minID = mn, maxID = mx\<rparr>"

definition used_at :: "ProjectIDPool \<Rightarrow> uint32 \<Rightarrow> bool" where
  "used_at p i = (case used p i of None \<Rightarrow> False | Some b \<Rightarrow> b)"

text \<open>
  The loop \<open>for id := p.minID; id <= p.maxID; id++\<close> of \<open>Allocate\<close>, from the
  current value of \<open>id\<close>. The counter is a \<open>uint32\<close>, so \<open>id++\<close> wraps around; the loop
  need not end, and a run that does not return is the value \<open>None\<close>. A run that returns
  gives the pool, the identifier and the error of Go's \<open>(uint32, error)\<close>.
\<close>

partial_function (option) Allocate_loop ::
  "ProjectIDPool \<Rightarrow> uint32 \<Rightarrow> (ProjectIDPool \<times> uint32 \<times> error option) option" where
  "Allocate_loop p i =
     (if i \<le> maxID p then
        (if \<not> used_at p i then Some (p\<lparr>used := (used p)(i \<mapsto> True)\<rparr>, i, None)
         else Allocate_loop p (i + 1))
      else Some (p, 0, Some ErrNoAvailableProjectID))"

declare Allocate_loop.simps [code]

definition Allocate ::
  "ProjectIDPool \<Rightarrow> (ProjectIDPool \<times> uint32 \<times> error option) option" where
  "Allocate p = Allocate_loop p (minID p)"

definition Release :: "ProjectIDPool \<Rightarrow> uint32 \<Rightarrow> ProjectIDPool" where
  "Release p i = p\<lparr>used := (used p)(i := None)\<rparr>"

definition MarkUsed :: "ProjectIDPool \<Rightarrow> uint32 \<Rightarrow> ProjectIDPool" where
  "MarkUsed p i = p\<lparr>used := (used p)(i \<mapsto> True)\<rparr>"

text \<open>The identifiers the pool holds as in use, and the configured range.\<close>

definition in_use :: "ProjectIDPool \<Rightarrow> uint32 set" where
  "in_use p = {i. used_at p i}"

definition id_range :: "ProjectIDPool \<Rightarrow> uint32 set" where
  "id_range p = {i. minID p \<le> i \<and> i \<le> maxID p}"

text \<open>A finite sequence of calls on one pool; \<open>None\<close> when an \<open>Allocate\<close> does not return.\<close>

datatype pool_call = CallAllocate | CallRelease uint32 | CallMarkUsed uint32

fun run_pool_calls :: "pool_call list \<Rightarrow> ProjectIDPool \<Rightarrow> ProjectIDPool option" where
  "run_pool_calls [] p = Some p"
| "run_pool_calls (CallAllocate # cs) p =
     (case Allocate p of None \<Rightarrow> None | Some (p', _, _) \<Rightarrow> run_pool_calls cs p')"
| "run_pool_calls (CallRelease i # cs) p = run_pool_calls cs (Release p i)"
| "run_pool_calls (CallMarkUsed i # cs) p = run_pool_calls cs (MarkUsed p i)"

fun MarkUsed_args_in :: "uint32 set \<Rightarrow> pool_call list \<Rightarrow> bool" where
  "MarkUsed_args_in R [] = True"
| "MarkUsed_args_in R (CallMarkUsed i # cs) = (i \<in> R \<and> MarkUsed_args_in R cs)"
| "MarkUsed_args_in R (_ # cs) = MarkUsed_args_in R cs"

section \<open>The world outside the process\<close>

text \<open>
  Files, the xfs tools and containerd are outside the repository. Each operation on them
  is recorded as a \<open>call\<close>; the \<open>world\<close> is the list of calls issued so far, and the
  environment \<open>env\<close> answers each call from that history, so the same call may succeed
  once and fail later. The JSON encoder and decoder and \<open>filepath.Dir\<close> are library
  functions and are parameters as well.
\<close>

record Mount =
  Mount_Type :: string
  Mount_Options :: "string list"

datatype call =
    OsReadFile string
  | OsMkdirAll string
  | OsCreate string
  | OsWriteFile string string
  | OsStat string
  | XfsIoStat string
  | XfsQuotaProject string uint32
  | XfsQuotaLimit uint32 string string
  | ClientContainers
  | SnapshotMounts string

type_synonym world = "call list"

section \<open>pkg/xfs/state.go: the state manager\<close>

record Entry =
  ContainerID :: string
  ProjectID :: uint32
  Upperdir :: string

text \<open>
  \<open>Entries\<close> is a Go map and may be nil (\<open>None\<close>): reading a nil map gives the zero
  value, \<open>delete\<close> on it does nothing, an assignment into it panics.
\<close>

record State =
  Entries :: "(string \<rightharpoonup> Entry) option"

record StateManager =
  filePath :: string
  state :: State

record env =
  os_ReadFile :: "world \<Rightarrow> string \<Rightarrow> error + string"
  os_MkdirAll :: "world \<Rightarrow> string \<Rightarrow> error option"
  os_Create :: "world \<Rightarrow> string \<Rightarrow> error option"
  os_WriteFile :: "world \<Rightarrow> string \<Rightarrow> string \<Rightarrow> error option"
  os_Stat :: "world \<Rightarrow> string \<Rightarrow> error option"
  filepath_Dir :: "string \<Rightarrow> string"
  json_MarshalIndent :: "State \<Rightarrow> error + string"
  json_Unmarshal :: "string \<Rightarrow> State \<Rightarrow> State \<times> error option"
  xfs_io_stat :: "world \<Rightarrow> string \<Rightarrow> error + uint32"
  xfs_quota_project :: "world \<Rightarrow> string \<Rightarrow> uint32 \<Rightarrow> error option"
  xfs_quota_limit :: "world \<Rightarrow> uint32 \<Rightarrow> string \<Rightarrow> string \<Rightarrow> error option"
  client_Containers :: "world \<Rightarrow> error + string list"
  snapshot_Mounts :: "world \<Rightarrow> string \<Rightarrow> error + Mount list"

text \<open>
  A call of the repository's code either returns, panics (an index out of range, an
  assignment into a nil map), or does not return (the loop of \<open>Allocate\<close>).
\<close>

datatype 'a run = Diverge | Panic | Return 'a

definition Entry_zero :: Entry where
  "Entry_zero = \<lparr>ContainerID = [], ProjectID = 0, Upperdir = []\<rparr>"

definition Entries_len_is_0 :: "State \<Rightarrow> bool" where
  "Entries_len_is_0 st = (case Entries st of None \<Rightarrow> True | Some es \<Rightarrow> es = Map.empty)"

definition load :: "env \<Rightarrow> StateManager \<Rightarrow> world \<Rightarrow> error option \<times> StateManager \<times> world" where
  "load env m w =
     (case os_ReadFile env w (filePath m) of
        Inl err \<Rightarrow> (Some err, m, w @ [OsReadFile (filePath m)])
      | Inr data \<Rightarrow>
          if length data = 0 \<or> \<not> Entries_len_is_0 (state m)
          then (None, m, w @ [OsReadFile (filePath m)])
          else (case json_Unmarshal env data (state m) of
                  (st, err) \<Rightarrow> (err, m\<lparr>state := st\<rparr>, w @ [OsReadFile (filePath m)])))"

text \<open>Go's \<open>(*StateManager, error)\<close>: the pointer is \<open>None\<close> when nil.\<close>

definition NewStateManager ::
  "env \<Rightarrow> string \<Rightarrow> world \<Rightarrow> (StateManager option \<times> error option) \<times> world" where
  "NewStateManager env path w =
     (case load env \<lparr>filePath = path, state = \<lparr>Entries = Some Map.empty\<rparr>\<rparr> w of
        (err, m, w1) \<Rightarrow>
          if err \<noteq> None then
            if os_IsNotExist err then
              (case os_MkdirAll env w1 (filepath_Dir env path) of
                 Some e \<Rightarrow> ((None, Some e), w1 @ [OsMkdirAll (filepath_Dir env path)])
               | None \<Rightarrow>
                   (case os_Create env (w1 @ [OsMkdirAll (filepath_Dir env path)]) path of
                      Some e \<Rightarrow>
                        ((None, Some e), w1 @ [OsMkdirAll (filepath_Dir env path), OsCreate path])
                    | None \<Rightarrow>
                        ((Some m, None), w1 @ [OsMkdirAll (filepath_Dir env path), OsCreate path])))
            else ((None, err), w1)
          else ((Some m, None), w1))"

definition save :: "env \<Rightarrow> StateManager \<Rightarrow> world \<Rightarrow> error option \<times> world" where
  "save env m w =
     (case json_MarshalIndent env (state m) of
        Inl err \<Rightarrow> (Some err, w)
      | Inr data \<Rightarrow>
          (os_WriteFile env w (filePath m) data, w @ [OsWriteFile (filePath m) data]))"

definition AddEntry ::
  "env \<Rightarrow> StateManager \<Rightarrow> string \<Rightarrow> uint32 \<Rightarrow> string \<Rightarrow> world
     \<Rightarrow> (error option \<times> StateManager \<times> world) run" where
  "AddEntry env m containerID projectID upperdir w =
     (case Entries (state m) of
        None \<Rightarrow> Panic
      | Some es \<Rightarrow>
          (case save env
                  (m\<lparr>state := \<lparr>Entries = Some (es(containerID \<mapsto>
                      \<lparr>ContainerID = containerID, ProjectID = projectID,
                       Upperdir = upperdir\<rparr>))\<rparr>\<rparr>) w of
             (err, w1) \<Rightarrow>
               Return (err,
                 m\<lparr>state := \<lparr>Entries = Some (es(containerID \<mapsto>
                      \<lparr>ContainerID = containerID, ProjectID = projectID,
                       Upperdir = upperdir\<rparr>))\<rparr>\<rparr>, w1)))"

definition RemoveEntry ::
  "env \<Rightarrow> StateManager \<Rightarrow> string \<Rightarrow> world \<Rightarrow> error option \<times> StateManager \<times> world" where
  "RemoveEntry env m containerID w =
     (case save env
             (m\<lparr>state := \<lparr>Entries =
                 map_option (\<lambda>es. es(containerID := None)) (Entries (state m))\<rparr>\<rparr>) w of
        (err, w1) \<Rightarrow>
          (err,
           m\<lparr>state := \<lparr>Entries =
                 map_option (\<lambda>es. es(containerID := None)) (Entries (state m))\<rparr>\<rparr>, w1))"

definition GetEntry :: "StateManager \<Rightarrow> string \<Rightarrow> Entry \<times> bool" where
  "GetEntry m containerID =
     (case Entries (state m) of
        None \<Rightarrow> (Entry_zero, False)
      | Some es \<Rightarrow>
          (case es containerID of None \<Rightarrow> (Entry_zero, False) | Some e \<Rightarrow> (e, True)))"

section \<open>pkg/xfs/quota.go: the xfs tools and the snapshot mounts\<close>

definition strings_HasPrefix :: "string \<Rightarrow> string \<Rightarrow> bool" where
  "strings_HasPrefix s pre = (take (length pre) s = pre)"

definition strings_TrimPrefix :: "string \<Rightarrow> string \<Rightarrow> string" where
  "strings_TrimPrefix s pre = (if strings_HasPrefix s pre then drop (length pre) s else s)"

text \<open>Every error return of \<open>GetProjectIDFromXFS\<close> carries the identifier 0.\<close>

definition GetProjectIDFromXFS ::
  "env \<Rightarrow> string \<Rightarrow> world \<Rightarrow> (uint32 \<times> error option) \<times> world" where
  "GetProjectIDFromXFS env path w =
     (case xfs_io_stat env w path of
        Inl err \<Rightarrow> ((0, Some err), w @ [XfsIoStat path])
      | Inr projid \<Rightarrow> ((projid, None), w @ [XfsIoStat path]))"

definition SetProjectIDWithXFSQuota ::
  "env \<Rightarrow> string \<Rightarrow> uint32 \<Rightarrow> world \<Rightarrow> error option \<times> world" where
  "SetProjectIDWithXFSQuota env path projid w =
     (xfs_quota_project env w path projid, w @ [XfsQuotaProject path projid])"

definition SetProjectQuotaWithXFSQuota ::
  "env \<Rightarrow> uint32 \<Rightarrow> string \<Rightarrow> string \<Rightarrow> world \<Rightarrow> error option \<times> world" where
  "SetProjectQuotaWithXFSQuota env projid bsoft bhard w =
     (xfs_quota_limit env w projid bsoft bhard, w @ [XfsQuotaLimit projid bsoft bhard])"

text \<open>The two nested loops of \<open>GetSnapshotUpperdir\<close> over the mounts and their options.\<close>

fun upperDir_of_options :: "string \<Rightarrow> string list \<Rightarrow> string" where
  "upperDir_of_options upperDir [] = upperDir"
| "upperDir_of_options upperDir (opt # opts) =
     (if strings_HasPrefix opt ''upperdir=''
      then upperDir_of_options (strings_TrimPrefix opt ''upperdir='') opts
      else upperDir_of_options upperDir opts)"

fun upperDir_of_mounts :: "string \<Rightarrow> Mount list \<Rightarrow> string" where
  "upperDir_of_mounts upperDir [] = upperDir"
| "upperDir_of_mounts upperDir (mount # mounts) =
     (if Mount_Type mount = ''overlay''
      then upperDir_of_mounts (upperDir_of_options upperDir (Mount_Options mount)) mounts
      else upperDir_of_mounts upperDir mounts)"

definition GetSnapshotUpperdir ::
  "env \<Rightarrow> string \<Rightarrow> world \<Rightarrow> (string \<times> error option) \<times> world" where
  "GetSnapshotUpperdir env containerID w =
     (case snapshot_Mounts env w containerID of
        Inl err \<Rightarrow> (([], Some err), w @ [SnapshotMounts containerID])
      | Inr mounts \<Rightarrow>
          if upperDir_of_mounts [] mounts = []
          then (([], Some (ErrUpperdirNotFound containerID)), w @ [SnapshotMounts containerID])
          else ((upperDir_of_mounts [] mounts, None), w @ [SnapshotMounts containerID]))"

section \<open>The two configurations\<close>

text \<open>
  The configuration of src/unnamed/part_001, with flat fields: the one that test/main.go
  reads. The fields that pkg/config/config.go has under the same name carry the prefix
  \<open>Flat\<close>.
\<close>

record FlatConfig =
  Flat_StateFilePath :: string
  ProjectIDMin :: uint32
  ProjectIDMax :: uint32
  Flat_MetricsPort :: string
  Flat_ContainerdSock :: string
  DefaultQuotaSoft :: string
  DefaultQuotaHard :: string
  Flat_Namespace :: string

text \<open>pkg/config/config.go, with nested fields: the one that the handler reads.\<close>

record ProjectConfig =
  IDMin :: uint32
  IDMax :: uint32

record QuotaConfig =
  DefaultSoft :: string
  DefaultHard :: string

record Config =
  StateFilePath :: string
  Project :: ProjectConfig
  MetricsPort :: string
  ContainerdSock :: string
  Quota :: QuotaConfig
  Namespace :: string

section \<open>pkg/handler: the event handlers and the state synchronisation\<close>

record RFSQuota =
  cfg :: Config
  stateManager :: StateManager
  projectIDPool :: ProjectIDPool

record TaskCreate =
  TaskCreate_ContainerID :: string
  Rootfs :: "Mount list"

record TaskDelete =
  TaskDelete_ContainerID :: string

text \<open>Indexing a Go slice: \<open>None\<close> is the panic on an index out of range.\<close>

definition index :: "'a list \<Rightarrow> nat \<Rightarrow> 'a option" where
  "index xs i = (if i < length xs then Some (xs ! i) else None)"

text \<open>pkg/handler/utils.go\<close>

definition GetProjectID ::
  "env \<Rightarrow> string \<Rightarrow> string \<Rightarrow> StateManager \<Rightarrow> world \<Rightarrow> (uint32 \<times> error option) \<times> world" where
  "GetProjectID env containerId path sm w =
     (case GetProjectIDFromXFS env path w of
        ((i, err), w1) \<Rightarrow>
          (case GetEntry sm containerId of
             (entry, exists) \<Rightarrow>
               if \<not> exists \<and> err \<noteq> None
               then ((i, Some (ErrFailedGetProjid containerId)), w1)
               else if i \<noteq> 0 \<and> ProjectID entry \<noteq> i \<and> exists
               then ((i, Some (ErrWrongProjid containerId i (ProjectID entry))), w1)
               else ((i, None), w1)))"

text \<open>pkg/handler/handle.go\<close>

definition handleTaskCreate ::
  "env \<Rightarrow> RFSQuota \<Rightarrow> TaskCreate \<Rightarrow> world \<Rightarrow> (error option \<times> RFSQuota \<times> world) run" where
  "handleTaskCreate env q e w =
     (case index (Rootfs e) 0 of
        None \<Rightarrow> Panic
      | Some rootfs0 \<Rightarrow>
     (case index (Mount_Options rootfs0) 1 of
        None \<Rightarrow> Panic
      | Some option1 \<Rightarrow>
     (case Allocate (projectIDPool q) of
        None \<Rightarrow> Diverge
      | Some (pool1, projID, Some err) \<Rightarrow> Return (Some err, q\<lparr>projectIDPool := pool1\<rparr>, w)
      | Some (pool1, projID, None) \<Rightarrow>
     (case SetProjectIDWithXFSQuota env (strings_TrimPrefix option1 ''upperdir='') projID w of
        (Some err, w1) \<Rightarrow>
          Return (Some err, q\<lparr>projectIDPool := Release pool1 projID\<rparr>, w1)
      | (None, w1) \<Rightarrow>
     (case SetProjectQuotaWithXFSQuota env projID
             (DefaultSoft (Quota (cfg q))) (DefaultSoft (Quota (cfg q))) w1 of
        (Some err, w2) \<Rightarrow>
          Return (Some err, q\<lparr>projectIDPool := Release pool1 projID\<rparr>, w2)
      | (None, w2) \<Rightarrow>
     (case AddEntry env (stateManager q) (TaskCreate_ContainerID e) projID
             (strings_TrimPrefix option1 ''upperdir='') w2 of
        Diverge \<Rightarrow> Diverge
      | Panic \<Rightarrow> Panic
      | Return (Some err, sm1, w3) \<Rightarrow>
          Return (Some err,
            q\<lparr>stateManager := sm1, projectIDPool := Release pool1 projID\<rparr>, w3)
      | Return (None, sm1, w3) \<Rightarrow>
          Return (None, q\<lparr>stateManager := sm1, projectIDPool := pool1\<rparr>, w3)))))))"

definition handleTaskDelete ::
  "env \<Rightarrow> RFSQuota \<Rightarrow> TaskDelete \<Rightarrow> world \<Rightarrow> error option \<times> RFSQuota \<times> world" where
  "handleTaskDelete env q e w =
     (case GetSnapshotUpperdir env (TaskDelete_ContainerID e) w of
        ((upperdir, Some err), w1) \<Rightarrow> (Some err, q, w1)
      | ((upperdir, None), w1) \<Rightarrow>
     (case (if os_Stat env w1 upperdir = None
            then GetProjectID env (TaskDelete_ContainerID e) upperdir (stateManager q)
                   (w1 @ [OsStat upperdir])
            else ((0, None), w1 @ [OsStat upperdir])) of
        ((projID, Some err), w2) \<Rightarrow> (Some err, q, w2)
      | ((projID, None), w2) \<Rightarrow>
     (case SetProjectQuotaWithXFSQuota env projID ''0'' ''0'' w2 of
        (Some err, w3) \<Rightarrow> (Some err, q, w3)
      | (None, w3) \<Rightarrow>
     (case RemoveEntry env (stateManager q) (TaskDelete_ContainerID e) w3 of
        (Some err, sm1, w4) \<Rightarrow> (Some err, q\<lparr>stateManager := sm1\<rparr>, w4)
      | (None, sm1, w4) \<Rightarrow>
          (None, q\<lparr>stateManager := sm1,
                   projectIDPool := Release (projectIDPool q) projID\<rparr>, w4)))))"

definition restoreQuota ::
  "env \<Rightarrow> RFSQuota \<Rightarrow> string \<Rightarrow> string \<Rightarrow> world \<Rightarrow> (error option \<times> RFSQuota \<times> world) run" where
  "restoreQuota env q containerID upperdir w =
     (case Allocate (projectIDPool q) of
        None \<Rightarrow> Diverge
      | Some (pool1, projID, Some err) \<Rightarrow> Return (Some err, q\<lparr>projectIDPool := pool1\<rparr>, w)
      | Some (pool1, projID, None) \<Rightarrow>
     (case SetProjectIDWithXFSQuota env upperdir projID w of
        (Some err, w1) \<Rightarrow>
          Return (Some err, q\<lparr>projectIDPool := Release pool1 projID\<rparr>, w1)
      | (None, w1) \<Rightarrow>
     (case SetProjectQuotaWithXFSQuota env projID
             (DefaultSoft (Quota (cfg q))) (DefaultHard (Quota (cfg q))) w1 of
        (Some err, w2) \<Rightarrow>
          Return (Some err, q\<lparr>projectIDPool := Release pool1 projID\<rparr>, w2)
      | (None, w2) \<Rightarrow>
     (case AddEntry env (stateManager q) containerID projID upperdir w2 of
        Diverge \<Rightarrow> Diverge
      | Panic \<Rightarrow> Panic
      | Return (err, sm1, w3) \<Rightarrow>
          Return (err, q\<lparr>stateManager := sm1, projectIDPool := pool1\<rparr>, w3)))))"

text \<open>
  The body of the loop of \<open>syncState\<close> over the containers: every \<open>continue\<close> and the
  end of the body go on with the rest of the list; an error of \<open>restoreQuota\<close> is only
  logged.
\<close>

fun syncState_loop ::
  "env \<Rightarrow> RFSQuota \<Rightarrow> string list \<Rightarrow> world \<Rightarrow> (RFSQuota \<times> world) run" where
  "syncState_loop env q [] w = Return (q, w)"
| "syncState_loop env q (c # containers) w =
     (case GetSnapshotUpperdir env c w of
        ((upperdir, Some err), w1) \<Rightarrow> syncState_loop env q containers w1
      | ((upperdir, None), w1) \<Rightarrow>
          if os_IsNotExist (os_Stat env w1 upperdir)
          then syncState_loop env q containers (w1 @ [OsStat upperdir])
          else if \<not> snd (GetEntry (stateManager q) c)
          then (case restoreQuota env q c upperdir (w1 @ [OsStat upperdir]) of
                  Diverge \<Rightarrow> Diverge
                | Panic \<Rightarrow> Panic
                | Return (err, q1, w2) \<Rightarrow> syncState_loop env q1 containers w2)
          else syncState_loop env q containers (w1 @ [OsStat upperdir]))"

definition syncState ::
  "env \<Rightarrow> RFSQuota \<Rightarrow> world \<Rightarrow> (error option \<times> RFSQuota \<times> world) run" where
  "syncState env q w =
     (case client_Containers env w of
        Inl err \<Rightarrow> Return (Some err, q, w @ [ClientContainers])
      | Inr containers \<Rightarrow>
          (case syncState_loop env q containers (w @ [ClientContainers]) of
             Diverge \<Rightarrow> Diverge
           | Panic \<Rightarrow> Panic
           | Return (q1, w1) \<Rightarrow> Return (None, q1, w1)))"

section \<open>test/main.go: the event loop with its own synchronisation\<close>

text \<open>
  test/main.go holds a second program over the same pool and state manager. The bodies of
  the two event cases of \<open>runEventListener\<close> and its \<open>syncState\<close> (here
  \<open>main_syncState\<close>, the name \<open>syncState\<close> being the handler's) are modelled next
  to the handler. Errors are logged there, not returned; every \<open>continue\<close> ends the body.
  \<open>main_syncState_restore\<close> is the branch of \<open>syncState\<close> for a container without an
  entry.
\<close>

definition runEventListener_TaskCreate ::
  "env \<Rightarrow> FlatConfig \<Rightarrow> StateManager \<Rightarrow> ProjectIDPool \<Rightarrow> TaskCreate \<Rightarrow> world
     \<Rightarrow> (StateManager \<times> ProjectIDPool \<times> world) run" where
  "runEventListener_TaskCreate env config sm pool e w =
     (case index (Rootfs e) 0 of
        None \<Rightarrow> Panic
      | Some rootfs0 \<Rightarrow>
     (case index (Mount_Options rootfs0) 1 of
        None \<Rightarrow> Panic
      | Some option1 \<Rightarrow>
     (case Allocate pool of
        None \<Rightarrow> Diverge
      | Some (pool1, projID, Some err) \<Rightarrow> Return (sm, pool1, w)
      | Some (pool1, projID, None) \<Rightarrow>
     (case SetProjectIDWithXFSQuota env (strings_TrimPrefix option1 ''upperdir='') projID w of
        (Some err, w1) \<Rightarrow> Return (sm, Release pool1 projID, w1)
      | (None, w1) \<Rightarrow>
     (case SetProjectQuotaWithXFSQuota env projID
             (DefaultQuotaSoft config) (DefaultQuotaHard config) w1 of
        (Some err, w2) \<Rightarrow> Return (sm, Release pool1 projID, w2)
      | (None, w2) \<Rightarrow>
     (case AddEntry env sm (TaskCreate_ContainerID e) projID
             (strings_TrimPrefix option1 ''upperdir='') w2 of
        Diverge \<Rightarrow> Diverge
      | Panic \<Rightarrow> Panic
      | Return (err, sm1, w3) \<Rightarrow> Return (sm1, pool1, w3)))))))"

definition runEventListener_TaskDelete ::
  "env \<Rightarrow> StateManager \<Rightarrow> ProjectIDPool \<Rightarrow> TaskDelete \<Rightarrow> world
     \<Rightarrow> StateManager \<times> ProjectIDPool \<times> world" where
  "runEventListener_TaskDelete env sm pool e w =
     (case GetSnapshotUpperdir env (TaskDelete_ContainerID e) w of
        ((updir, Some err), w1) \<Rightarrow> (sm, pool, w1)
      | ((updir, None), w1) \<Rightarrow>
     (case (if os_Stat env w1 updir = None
            then GetProjectID env (TaskDelete_ContainerID e) updir sm (w1 @ [OsStat updir])
            else ((0, None), w1 @ [OsStat updir])) of
        ((i, Some err), w2) \<Rightarrow> (sm, pool, w2)
      | ((i, None), w2) \<Rightarrow>
     (case SetProjectQuotaWithXFSQuota env i ''0'' ''0'' w2 of
        (err1, w3) \<Rightarrow>
     (case RemoveEntry env sm (TaskDelete_ContainerID e) w3 of
        (err2, sm1, w4) \<Rightarrow> (sm1, Release pool i, w4)))))"

definition main_syncState_restore ::
  "env \<Rightarrow> FlatConfig \<Rightarrow> StateManager \<Rightarrow> ProjectIDPool \<Rightarrow> string \<Rightarrow> string \<Rightarrow> world
     \<Rightarrow> (StateManager \<times> ProjectIDPool \<times> world) run" where
  "main_syncState_restore env config sm pool c upperdir w =
     (case Allocate pool of
        None \<Rightarrow> Diverge
      | Some (pool1, projID, Some err) \<Rightarrow> Return (sm, pool1, w)
      | Some (pool1, projID, None) \<Rightarrow>
     (case SetProjectIDWithXFSQuota env upperdir projID w of
        (Some err, w1) \<Rightarrow> Return (sm, Release pool1 projID, w1)
      | (None, w1) \<Rightarrow>
     (case SetProjectQuotaWithXFSQuota env projID
             (DefaultQuotaSoft config) (DefaultQuotaHard config) w1 of
        (Some err, w2) \<Rightarrow> Return (sm, Release pool1 projID, w2)
      | (None, w2) \<Rightarrow>
     (case AddEntry env sm c projID upperdir w2 of
        Diverge \<Rightarrow> Diverge
      | Panic \<Rightarrow> Panic
      | Return (err, sm1, w3) \<Rightarrow> Return (sm1, pool1, w3)))))"

fun main_syncState_loop ::
  "env \<Rightarrow> FlatConfig \<Rightarrow> StateManager \<Rightarrow> ProjectIDPool \<Rightarrow> string list \<Rightarrow> world
     \<Rightarrow> (StateManager \<times> ProjectIDPool \<times> world) run" where
  "main_syncState_loop env config sm pool [] w = Return (sm, pool, w)"
| "main_syncState_loop env config sm pool (c # containers) w =
     (case GetSnapshotUpperdir env c w of
        ((upperdir, Some err), w1) \<Rightarrow> main_syncState_loop env config sm pool containers w1
      | ((upperdir, None), w1) \<Rightarrow>
          if os_IsNotExist (os_Stat env w1 upperdir)
          then main_syncState_loop env config sm pool containers (w1 @ [OsStat upperdir])
          else if \<not> snd (GetEntry sm c)
          then (case main_syncState_restore env config sm pool c upperdir
                       (w1 @ [OsStat upperdir]) of
                  Diverge \<Rightarrow> Diverge
                | Panic \<Rightarrow> Panic
                | Return (sm1, pool1, w2) \<Rightarrow>
                    main_syncState_loop env config sm1 pool1 containers w2)
          else main_syncState_loop env config sm
                 (MarkUsed pool (ProjectID (fst (GetEntry sm c)))) containers
                 (w1 @ [OsStat upperdir]))"

definition main_syncState ::
  "env \<Rightarrow> FlatConfig \<Rightarrow> StateManager \<Rightarrow> ProjectIDPool \<Rightarrow> world
     \<Rightarrow> (error option \<times> StateManager \<times> ProjectIDPool \<times> world) run" where
  "main_syncState env config sm pool w =
     (case client_Containers env w of
        Inl err \<Rightarrow> Return (Some err, sm, pool, w @ [ClientContainers])
      | Inr containers \<Rightarrow>
          (case main_syncState_loop env config sm pool containers (w @ [ClientContainers]) of
             Diverge \<Rightarrow> Diverge
           | Panic \<Rightarrow> Panic
           | Return (sm1, pool1, w1) \<Rightarrow> Return (None, sm1, pool1, w1)))"

section \<open>Concrete environments and inputs\<close>

text \<open>
  An environment in which every call succeeds: the state file is empty, the decoder
  rejects whatever it is given, the path of every container is \<open>/var/lib/x/c1\<close>, tagged
  with project 7, and one container \<open>c1\<close> is live. Failing variants are record updates
  of it.
\<close>

definition env_ok :: env where
  "env_ok =
     \<lparr>os_ReadFile = (\<lambda>w path. Inr []),
      os_MkdirAll = (\<lambda>w path. None),
      os_Create = (\<lambda>w path. None),
      os_WriteFile = (\<lambda>w path data. None),
      os_Stat = (\<lambda>w path. None),
      filepath_Dir = (\<lambda>path. ''/var/lib/quota''),
      json_MarshalIndent = (\<lambda>st. Inr ''{entries}''),
      json_Unmarshal = (\<lambda>data st. (st, Some (ErrExternal ''unexpected end of JSON input''))),
      xfs_io_stat = (\<lambda>w path. Inr 7),
      xfs_quota_project = (\<lambda>w path projid. None),
      xfs_quota_limit = (\<lambda>w projid bsoft bhard. None),
      client_Containers = (\<lambda>w. Inr [''c1'']),
      snapshot_Mounts = (\<lambda>w containerID.
        Inr [\<lparr>Mount_Type = ''overlay'',
              Mount_Options = [''lowerdir=/l'', ''upperdir=/var/lib/x/c1'']\<rparr>])\<rparr>"

definition cfg_5g_10g :: Config where
  "cfg_5g_10g =
     \<lparr>StateFilePath = ''/var/lib/quota/state.json'',
      Project = \<lparr>IDMin = 1, IDMax = 100\<rparr>,
      MetricsPort = [],
      ContainerdSock = ''/run/containerd/containerd.sock'',
      Quota = \<lparr>DefaultSoft = ''5g'', DefaultHard = ''10g''\<rparr>,
      Namespace = ''default''\<rparr>"

definition entry_c1 :: Entry where
  "entry_c1 = \<lparr>ContainerID = ''c1'', ProjectID = 7, Upperdir = ''/var/lib/x/c1''\<rparr>"

definition q_empty :: RFSQuota where
  "q_empty =
     \<lparr>cfg = cfg_5g_10g,
      stateManager = \<lparr>filePath = ''/var/lib/quota/state.json'',
                      state = \<lparr>Entries = Some Map.empty\<rparr>\<rparr>,
      projectIDPool = NewProjectIDPool 1 100\<rparr>"

definition q_c1 :: RFSQuota where
  "q_c1 =
     \<lparr>cfg = cfg_5g_10g,
      stateManager = \<lparr>filePath = ''/var/lib/quota/state.json'',
                      state = \<lparr>Entries = Some [''c1'' \<mapsto> entry_c1]\<rparr>\<rparr>,
      projectIDPool = NewProjectIDPool 1 100\<rparr>"

definition q_c1_marked :: RFSQuota where
  "q_c1_marked = q_c1\<lparr>projectIDPool := MarkUsed (NewProjectIDPool 1 100) 7\<rparr>"

definition create_c1 :: TaskCreate where
  "create_c1 =
     \<lparr>TaskCreate_ContainerID = ''c1'',
      Rootfs = [\<lparr>Mount_Type = ''overlay'',
                 Mount_Options = [''lowerdir=/l'', ''upperdir=/var/lib/x/c1'']\<rparr>]\<rparr>"

definition create_c2 :: TaskCreate where
  "create_c2 =
     \<lparr>TaskCreate_ContainerID = ''c2'',
      Rootfs = [\<lparr>Mount_Type = ''overlay'',
                 Mount_Options = [''lowerdir=/l'', ''upperdir=/var/lib/x/c2'']\<rparr>]\<rparr>"

definition flat_5g_10g :: FlatConfig where
  "flat_5g_10g =
     \<lparr>Flat_StateFilePath = ''/var/lib/quota/state.json'',
      ProjectIDMin = 1, ProjectIDMax = 100,
      Flat_MetricsPort = ''9100'',
      Flat_ContainerdSock = ''/run/containerd/containerd.sock'',
      DefaultQuotaSoft = ''5g'', DefaultQuotaHard = ''10g'',
      Flat_Namespace = ''default''\<rparr>"

lemmas ev = create_c2_def flat_5g_10g_def q_c1_marked_def env_ok_def cfg_5g_10g_def entry_c1_def q_empty_def q_c1_def create_c1_def
  NewProjectIDPool_def Allocate_def Allocate_loop.simps used_at_def Release_def MarkUsed_def
  index_def strings_TrimPrefix_def strings_HasPrefix_def
  SetProjectIDWithXFSQuota_def SetProjectQuotaWithXFSQuota_def GetProjectIDFromXFS_def
  GetSnapshotUpperdir_def save_def AddEntry_def RemoveEntry_def GetEntry_def Entry_zero_def
  os_IsNotExist_def

section \<open>The pool: what \<open>Allocate\<close> returns\<close>

lemma Allocate_loop_above:
  "\<not> i \<le> maxID p \<Longrightarrow> Allocate_loop p i = Some (p, 0, Some ErrNoAvailableProjectID)"
  by (subst Allocate_loop.simps) simp

text \<open>
  When \<open>maxID\<close> is not the largest \<open>uint32\<close>, the counter cannot wrap: the loop returns,
  with the least free identifier from \<open>i\<close> up to \<open>maxID\<close>, or with the error when there
  is none.
\<close>

lemma Allocate_loop_returns:
  assumes "maxID p \<noteq> - 1"
  shows "\<exists>p' r e. Allocate_loop p i = Some (p', r, e) \<and>
     ((e = None \<and> i \<le> r \<and> r \<le> maxID p \<and> \<not> used_at p r
         \<and> (\<forall>j. i \<le> j \<and> j < r \<longrightarrow> used_at p j)
         \<and> p' = p\<lparr>used := (used p)(r \<mapsto> True)\<rparr>)
      \<or> (e = Some ErrNoAvailableProjectID \<and> r = 0 \<and> p' = p
         \<and> (\<forall>j. i \<le> j \<and> j \<le> maxID p \<longrightarrow> used_at p j)))"
proof (induction "unat (maxID p) + 1 - unat i" arbitrary: i rule: less_induct)
  case less
  show ?case
  proof (cases "i \<le> maxID p")
    case False
    then show ?thesis by (subst Allocate_loop.simps) auto
  next
    case True
    show ?thesis
    proof (cases "used_at p i")
      case False
      with True show ?thesis by (subst Allocate_loop.simps) auto
    next
      case u: True
      have "i \<noteq> - 1" using True assms
        by (metis word_order.extremum antisym)
      then have "1 + i \<noteq> 0"
        by (simp add: eq_neg_iff_add_eq_0 add.commute)
      then have ui: "unat (i + 1) = unat i + 1"
        using unatSuc [of i] by (simp add: add.commute)
      have "unat i \<le> unat (maxID p)" using True by (simp add: word_le_nat_alt)
      then have m: "unat (maxID p) + 1 - unat (i + 1) < unat (maxID p) + 1 - unat i"
        using ui by simp
      have step: "Allocate_loop p i = Allocate_loop p (i + 1)"
        using True u by (subst Allocate_loop.simps) simp
      have lei: "i \<le> i + 1" using ui by (simp add: word_le_nat_alt)
      have nxt: "\<And>j. i \<le> j \<Longrightarrow> j = i \<or> i + 1 \<le> j"
        using ui by (auto simp: word_le_nat_alt word_unat_eq_iff)
      from less(1)[OF m] obtain p' r e where
        A: "Allocate_loop p (i + 1) = Some (p', r, e)" and
        B: "(e = None \<and> i + 1 \<le> r \<and> r \<le> maxID p \<and> \<not> used_at p r
              \<and> (\<forall>j. i + 1 \<le> j \<and> j < r \<longrightarrow> used_at p j)
              \<and> p' = p\<lparr>used := (used p)(r \<mapsto> True)\<rparr>)
          \<or> (e = Some ErrNoAvailableProjectID \<and> r = 0 \<and> p' = p
              \<and> (\<forall>j. i + 1 \<le> j \<and> j \<le> maxID p \<longrightarrow> used_at p j))"
        by blast
      from B show ?thesis
      proof
        assume C: "e = None \<and> i + 1 \<le> r \<and> r \<le> maxID p \<and> \<not> used_at p r
              \<and> (\<forall>j. i + 1 \<le> j \<and> j < r \<longrightarrow> used_at p j)
              \<and> p' = p\<lparr>used := (used p)(r \<mapsto> True)\<rparr>"
        then have "i \<le> r" using lei by auto
        moreover have "\<forall>j. i \<le> j \<and> j < r \<longrightarrow> used_at p j" using C nxt u by blast
        ultimately show ?thesis using A C step by simp
      next
        assume C: "e = Some ErrNoAvailableProjectID \<and> r = 0 \<and> p' = p
              \<and> (\<forall>j. i + 1 \<le> j \<and> j \<le> maxID p \<longrightarrow> used_at p j)"
        then have "\<forall>j. i \<le> j \<and> j \<le> maxID p \<longrightarrow> used_at p j" using nxt u by blast
        then show ?thesis using A C step by simp
      qed
    qed
  qed
qed

lemma Allocate_loop_Some:
  assumes "Allocate_loop p i = Some y"
  shows "(snd (snd y) = None \<longrightarrow>
            \<not> used_at p (fst (snd y)) \<and> fst y = p\<lparr>used := (used p)(fst (snd y) \<mapsto> True)\<rparr>)
         \<and> (snd (snd y) \<noteq> None \<longrightarrow> fst y = p)"
proof (rule Allocate_loop.raw_induct
    [where P = "\<lambda>p i y. (snd (snd y) = None \<longrightarrow>
            \<not> used_at p (fst (snd y)) \<and> fst y = p\<lparr>used := (used p)(fst (snd y) \<mapsto> True)\<rparr>)
         \<and> (snd (snd y) \<noteq> None \<longrightarrow> fst y = p)", OF _ assms])
  fix f p i y
  assume IH: "\<And>p i y. f p i = Some y \<Longrightarrow>
       (snd (snd y) = None \<longrightarrow>
            \<not> used_at p (fst (snd y)) \<and> fst y = p\<lparr>used := (used p)(fst (snd y) \<mapsto> True)\<rparr>)
         \<and> (snd (snd y) \<noteq> None \<longrightarrow> fst y = p)"
    and body: "(if i \<le> maxID p
      then if \<not> used_at p i
           then Some (p\<lparr>used := (used p)(i \<mapsto> True)\<rparr>, i, None)
           else f p (i + 1)
      else Some (p, 0, Some ErrNoAvailableProjectID)) = Some y"
  show "(snd (snd y) = None \<longrightarrow>
            \<not> used_at p (fst (snd y)) \<and> fst y = p\<lparr>used := (used p)(fst (snd y) \<mapsto> True)\<rparr>)
         \<and> (snd (snd y) \<noteq> None \<longrightarrow> fst y = p)"
  proof (cases "i \<le> maxID p")
    case False
    with body have "y = (p, 0, Some ErrNoAvailableProjectID)" by simp
    then show ?thesis by simp
  next
    case True
    show ?thesis
    proof (cases "used_at p i")
      case False
      with True body have "y = (p\<lparr>used := (used p)(i \<mapsto> True)\<rparr>, i, None)" by simp
      with False show ?thesis by simp
    next
      case u: True
      with True body have "f p (i + 1) = Some y" by simp
      then show ?thesis by (rule IH)
    qed
  qed
qed

lemma Allocate_Some_None:
  assumes "Allocate p = Some (p', r, None)"
  shows "\<not> used_at p r" and "p' = p\<lparr>used := (used p)(r \<mapsto> True)\<rparr>"
  using Allocate_loop_Some [of p "minID p" "(p', r, None)"] assms
  by (simp_all add: Allocate_def)

lemma in_use_Release_Allocate:
  "\<not> used_at p r \<Longrightarrow> in_use (Release (p\<lparr>used := (used p)(r \<mapsto> True)\<rparr>) r) = in_use p"
  by (auto simp: in_use_def Release_def used_at_def split: option.splits)

section \<open>The pool stays within its range\<close>

lemma Allocate_returns_in_range:
  assumes "maxID p \<noteq> - 1"
  shows "\<exists>p' r e. Allocate p = Some (p', r, e) \<and> minID p' = minID p \<and> maxID p' = maxID p
           \<and> in_use p' \<subseteq> in_use p \<union> id_range p"
proof -
  from Allocate_loop_returns [OF assms, of "minID p"] obtain p' r e where
    A: "Allocate_loop p (minID p) = Some (p', r, e)" and
    B: "(e = None \<and> minID p \<le> r \<and> r \<le> maxID p
           \<and> p' = p\<lparr>used := (used p)(r \<mapsto> True)\<rparr>) \<or> p' = p"
    by blast
  from B have "minID p' = minID p \<and> maxID p' = maxID p \<and> in_use p' \<subseteq> in_use p \<union> id_range p"
    by (auto simp: in_use_def id_range_def used_at_def split: if_splits)
  with A show ?thesis by (simp add: Allocate_def)
qed

lemma run_pool_calls_in_range:
  assumes "maxID p \<noteq> - 1" and "in_use p \<subseteq> id_range p" and "MarkUsed_args_in (id_range p) cs"
  shows "\<exists>p'. run_pool_calls cs p = Some p' \<and> in_use p' \<subseteq> id_range p'
           \<and> minID p' = minID p \<and> maxID p' = maxID p"
  using assms
proof (induction cs arbitrary: p)
  case Nil
  then show ?case by simp
next
  case (Cons c cs)
  show ?case
  proof (cases c)
    case CallAllocate
    from Allocate_returns_in_range [OF Cons.prems(1)] obtain p1 r e where
      A: "Allocate p = Some (p1, r, e)" and
      B: "minID p1 = minID p" "maxID p1 = maxID p" "in_use p1 \<subseteq> in_use p \<union> id_range p"
      by blast
    have R: "id_range p1 = id_range p" using B by (simp add: id_range_def)
    have "\<exists>p'. run_pool_calls cs p1 = Some p' \<and> in_use p' \<subseteq> id_range p'
           \<and> minID p' = minID p1 \<and> maxID p' = maxID p1"
      using Cons.prems B R CallAllocate by (intro Cons.IH) auto
    then show ?thesis using A B CallAllocate by simp
  next
    case (CallRelease i)
    let ?p1 = "Release p i"
    have R: "id_range ?p1 = id_range p" by (simp add: id_range_def Release_def)
    have I: "in_use ?p1 \<subseteq> in_use p"
      by (auto simp: in_use_def Release_def used_at_def split: if_splits)
    have "\<exists>p'. run_pool_calls cs ?p1 = Some p' \<and> in_use p' \<subseteq> id_range p'
           \<and> minID p' = minID ?p1 \<and> maxID p' = maxID ?p1"
      using Cons.prems R I CallRelease by (intro Cons.IH) (auto simp: Release_def)
    then show ?thesis using CallRelease by (simp add: Release_def)
  next
    case (CallMarkUsed i)
    let ?p1 = "MarkUsed p i"
    have R: "id_range ?p1 = id_range p" by (simp add: id_range_def MarkUsed_def)
    have I: "in_use ?p1 \<subseteq> insert i (in_use p)"
      by (auto simp: in_use_def MarkUsed_def used_at_def split: if_splits)
    have "i \<in> id_range p" using Cons.prems(3) CallMarkUsed by simp
    then have "\<exists>p'. run_pool_calls cs ?p1 = Some p' \<and> in_use p' \<subseteq> id_range p'
           \<and> minID p' = minID ?p1 \<and> maxID p' = maxID ?p1"
      using Cons.prems R I CallMarkUsed by (intro Cons.IH) (auto simp: MarkUsed_def)
    then show ?thesis using CallMarkUsed by (simp add: MarkUsed_def)
  qed
qed

text \<open>
  C6, as stated, fails: \<open>MarkUsed\<close> stores any identifier it is given. On a fresh pool
  over 1 to 10, \<open>MarkUsed(11)\<close> puts 11 in use.
\<close>

theorem MarkUsed_outside_range_counterexample:
  "run_pool_calls [CallMarkUsed 11] (NewProjectIDPool 1 10) = Some (MarkUsed (NewProjectIDPool 1 10) 11)
   \<and> 11 \<in> in_use (MarkUsed (NewProjectIDPool 1 10) 11)
   \<and> 11 \<notin> id_range (MarkUsed (NewProjectIDPool 1 10) 11)"
  by (simp add: in_use_def id_range_def MarkUsed_def NewProjectIDPool_def used_at_def)

text \<open>
  C6, amended. Starting from a freshly constructed pool over \<open>mn\<close> to \<open>mx\<close>, with
  \<open>mx\<close> below the largest \<open>uint32\<close>, every finite sequence of \<open>Allocate\<close>,
  \<open>Release\<close> and \<open>MarkUsed\<close> calls whose \<open>MarkUsed\<close> arguments lie in the range
  (the arguments of \<open>Release\<close> are arbitrary) returns, and the identifiers then in use
  are a subset of the range.
\<close>

theorem fresh_pool_in_use_within_range:
  assumes "mx \<noteq> - 1" and "MarkUsed_args_in {i. mn \<le> i \<and> i \<le> mx} cs"
  shows "\<exists>p'. run_pool_calls cs (NewProjectIDPool mn mx) = Some p'
           \<and> in_use p' \<subseteq> {i. mn \<le> i \<and> i \<le> mx}"
proof -
  let ?p = "NewProjectIDPool mn mx"
  have R: "id_range ?p = {i. mn \<le> i \<and> i \<le> mx}"
    by (simp add: id_range_def NewProjectIDPool_def)
  have "maxID ?p \<noteq> - 1" using assms(1) by (simp add: NewProjectIDPool_def)
  moreover have "in_use ?p \<subseteq> id_range ?p"
    by (simp add: in_use_def NewProjectIDPool_def used_at_def)
  moreover have "MarkUsed_args_in (id_range ?p) cs" using assms(2) R by simp
  ultimately obtain p' where
    "run_pool_calls cs ?p = Some p'" "in_use p' \<subseteq> id_range p'"
    "minID p' = minID ?p" "maxID p' = maxID ?p"
    using run_pool_calls_in_range by blast
  then show ?thesis by (auto simp: id_range_def NewProjectIDPool_def)
qed

text \<open>The amended C6 on the range 1 to 3, with an \<open>Allocate\<close> on the exhausted pool.\<close>

theorem fresh_pool_in_use_within_range_witness:
  "(3 :: uint32) \<noteq> - 1
   \<and> MarkUsed_args_in {i. 1 \<le> i \<and> i \<le> (3 :: uint32)}
        [CallAllocate, CallMarkUsed 3, CallAllocate, CallAllocate, CallRelease 9,
         CallRelease 1, CallAllocate]
   \<and> (\<exists>p'. run_pool_calls
               [CallAllocate, CallMarkUsed 3, CallAllocate, CallAllocate, CallRelease 9,
                CallRelease 1, CallAllocate] (NewProjectIDPool 1 3) = Some p'
          \<and> in_use p' \<subseteq> {i. 1 \<le> i \<and> i \<le> (3 :: uint32)})"
  using fresh_pool_in_use_within_range
    [of 3 1 "[CallAllocate, CallMarkUsed 3, CallAllocate, CallAllocate, CallRelease 9,
              CallRelease 1, CallAllocate]"]
  by simp

section \<open>Allocation at the end of the \<open>uint32\<close> range\<close>

text \<open>
  C7. \<open>Allocate\<close> is claimed to fail with the pool-exhausted error, leaving the in-use
  set unchanged, when every identifier of the range is in use. With the range
  4294967294 to 4294967295 and both identifiers in use, the counter wraps around to 0,
  which is below \<open>maxID\<close> and free: \<open>Allocate\<close> returns 0 without an error and marks 0 in
  use, an identifier outside the range.
\<close>

theorem Allocate_wraps_past_maxID:
  "Allocate \<lparr>used = [4294967294 \<mapsto> True, 4294967295 \<mapsto> True],
             minID = 4294967294, maxID = 4294967295\<rparr>
   = Some (\<lparr>used = [4294967294 \<mapsto> True, 4294967295 \<mapsto> True, 0 \<mapsto> True],
            minID = 4294967294, maxID = 4294967295\<rparr>, 0, None)"
proof -
  have z: "(4294967296 :: uint32) = 0" by simp
  show ?thesis by (simp add: Allocate_def Allocate_loop.simps used_at_def z)
qed

section \<open>Writing the state\<close>

text \<open>
  C2, as stated, fails: the write of the state file fails, \<open>AddEntry\<close> returns the
  error, and the state manager it leaves behind holds the entry of \<open>c1\<close> that was not
  there before the call.
\<close>

theorem AddEntry_failed_write_counterexample:
  "AddEntry (env_ok\<lparr>os_WriteFile := (\<lambda>w path data. Some (ErrExternal ''disk full''))\<rparr>)
      (stateManager q_empty) ''c1'' 7 ''/var/lib/x/c1'' []
   = Return (Some (ErrExternal ''disk full''), stateManager q_c1,
       [OsWriteFile ''/var/lib/quota/state.json'' ''{entries}''])
   \<and> GetEntry (stateManager q_empty) ''c1'' = (Entry_zero, False)
   \<and> GetEntry (stateManager q_c1) ''c1'' = (entry_c1, True)"
  by (simp add: ev)

text \<open>
  C2, amended. For every \<open>AddEntry\<close> call on a non-nil map whose \<open>save\<close> fails, the
  call returns that failure and the in-memory map is not rolled back: the inserted or
  replaced entry remains visible to \<open>GetEntry\<close>, and the entry of every other
  container is as before the call.
\<close>

theorem AddEntry_failed_write_not_rolled_back:
  assumes "Entries (state m) = Some es"
    and "save env (m\<lparr>state := \<lparr>Entries = Some (es(c \<mapsto>
            \<lparr>ContainerID = c, ProjectID = p, Upperdir = u\<rparr>))\<rparr>\<rparr>) w = (Some err, w1)"
  shows "\<exists>m'. AddEntry env m c p u w = Return (Some err, m', w1)
     \<and> GetEntry m' c = (\<lparr>ContainerID = c, ProjectID = p, Upperdir = u\<rparr>, True)
     \<and> (\<forall>c'. c' \<noteq> c \<longrightarrow> GetEntry m' c' = GetEntry m c')"
  using assms by (simp add: AddEntry_def GetEntry_def)

text \<open>The amended C2 on the empty store, with a write that fails.\<close>

theorem AddEntry_failed_write_not_rolled_back_witness:
  "Entries (state (stateManager q_empty)) = Some Map.empty
   \<and> save (env_ok\<lparr>os_WriteFile := (\<lambda>w path data. Some (ErrExternal ''disk full''))\<rparr>)
        (stateManager q_c1) []
      = (Some (ErrExternal ''disk full''),
         [OsWriteFile ''/var/lib/quota/state.json'' ''{entries}''])
   \<and> (\<exists>m'. AddEntry (env_ok\<lparr>os_WriteFile := (\<lambda>w path data. Some (ErrExternal ''disk full''))\<rparr>)
              (stateManager q_empty) ''c1'' 7 ''/var/lib/x/c1'' []
            = Return (Some (ErrExternal ''disk full''), m',
                [OsWriteFile ''/var/lib/quota/state.json'' ''{entries}''])
        \<and> GetEntry m' ''c1'' = (entry_c1, True))"
  using AddEntry_failed_write_not_rolled_back
    [of "stateManager q_empty" Map.empty
        "env_ok\<lparr>os_WriteFile := (\<lambda>w path data. Some (ErrExternal ''disk full''))\<rparr>"
        "''c1''" 7 "''/var/lib/x/c1''" "[]" "ErrExternal ''disk full''"
        "[OsWriteFile ''/var/lib/quota/state.json'' ''{entries}'']"]
  by (simp add: ev)

text \<open>
  C10. Constructing the state manager over a state file that exists and is empty
  succeeds and gives an empty store, whatever the JSON decoder would answer: \<open>load\<close>
  returns before it reaches the decoder.
\<close>

theorem NewStateManager_empty_file:
  assumes "os_ReadFile env w path = Inr []"
  shows "NewStateManager env path w =
           ((Some \<lparr>filePath = path, state = \<lparr>Entries = Some Map.empty\<rparr>\<rparr>, None),
            w @ [OsReadFile path])"
  using assms by (simp add: NewStateManager_def load_def)

text \<open>C10 with a decoder that rejects the empty input.\<close>

theorem NewStateManager_empty_file_witness:
  "os_ReadFile env_ok [] ''/var/lib/quota/state.json'' = Inr []
   \<and> snd (json_Unmarshal env_ok [] \<lparr>Entries = Some Map.empty\<rparr>)
       = Some (ErrExternal ''unexpected end of JSON input'')
   \<and> NewStateManager env_ok ''/var/lib/quota/state.json'' [] =
           ((Some (stateManager q_empty), None), [OsReadFile ''/var/lib/quota/state.json''])
   \<and> GetEntry (stateManager q_empty) ''c1'' = (Entry_zero, False)"
  using NewStateManager_empty_file [of env_ok "[]" "''/var/lib/quota/state.json''"]
  by (simp add: ev)

text \<open>A file with content that the decoder rejects makes the construction fail.\<close>

lemma NewStateManager_malformed_file:
  assumes "os_ReadFile env w path = Inr data" and "data \<noteq> []"
    and "json_Unmarshal env data \<lparr>Entries = Some Map.empty\<rparr> = (st, Some err)"
    and "err \<noteq> ErrNotExist"
  shows "NewStateManager env path w = ((None, Some err), w @ [OsReadFile path])"
  using assms by (simp add: NewStateManager_def load_def Entries_len_is_0_def os_IsNotExist_def)

section \<open>The creation sequence\<close>

text \<open>
  C8. In \<open>handleTaskCreate\<close>, when the allocation and the tagging of the path succeed
  and the setting of the limit fails, the call returns that error, the allocated
  identifier is free again, the identifiers in use are those in use before the call, the
  state manager is unchanged and no file is written.
\<close>

theorem handleTaskCreate_releases_on_failed_SetLimit:
  assumes "index (Rootfs e) 0 = Some rootfs0"
    and "index (Mount_Options rootfs0) 1 = Some option1"
    and "Allocate (projectIDPool q) = Some (pool1, projID, None)"
    and "xfs_quota_project env w (strings_TrimPrefix option1 ''upperdir='') projID = None"
    and "xfs_quota_limit env
           (w @ [XfsQuotaProject (strings_TrimPrefix option1 ''upperdir='') projID])
           projID (DefaultSoft (Quota (cfg q))) (DefaultSoft (Quota (cfg q))) = Some err"
  shows "\<exists>q'. handleTaskCreate env q e w =
           Return (Some err, q',
             w @ [XfsQuotaProject (strings_TrimPrefix option1 ''upperdir='') projID,
                  XfsQuotaLimit projID (DefaultSoft (Quota (cfg q)))
                    (DefaultSoft (Quota (cfg q)))])
         \<and> \<not> used_at (projectIDPool q') projID
         \<and> in_use (projectIDPool q') = in_use (projectIDPool q)
         \<and> stateManager q' = stateManager q"
proof -
  note A = Allocate_Some_None [OF assms(3)]
  have "in_use (Release pool1 projID) = in_use (projectIDPool q)"
    using A in_use_Release_Allocate by simp
  moreover have "\<not> used_at (Release pool1 projID) projID"
    by (simp add: Release_def used_at_def)
  ultimately show ?thesis using assms
    by (simp add: handleTaskCreate_def SetProjectIDWithXFSQuota_def
        SetProjectQuotaWithXFSQuota_def)
qed

text \<open>C8 on the container \<open>c1\<close>, with identifier 7 already in use.\<close>

theorem handleTaskCreate_releases_on_failed_SetLimit_witness:
  "index (Rootfs create_c1) 0
     = Some \<lparr>Mount_Type = ''overlay'',
             Mount_Options = [''lowerdir=/l'', ''upperdir=/var/lib/x/c1'']\<rparr>
   \<and> index [''lowerdir=/l'', ''upperdir=/var/lib/x/c1''] 1 = Some ''upperdir=/var/lib/x/c1''
   \<and> Allocate (projectIDPool q_c1_marked)
       = Some (MarkUsed (projectIDPool q_c1_marked) 1, 1, None)
   \<and> (\<exists>q'. handleTaskCreate
               (env_ok\<lparr>xfs_quota_limit :=
                  (\<lambda>w projid bsoft bhard. Some (ErrExternal ''exit status 1''))\<rparr>)
               q_c1_marked create_c1 []
             = Return (Some (ErrExternal ''exit status 1''), q',
                 [XfsQuotaProject ''/var/lib/x/c1'' 1, XfsQuotaLimit 1 ''5g'' ''5g''])
          \<and> \<not> used_at (projectIDPool q') 1
          \<and> in_use (projectIDPool q') = in_use (projectIDPool q_c1_marked)
          \<and> stateManager q' = stateManager q_c1_marked)"
proof -
  have 1: "index (Rootfs create_c1) 0
     = Some \<lparr>Mount_Type = ''overlay'',
             Mount_Options = [''lowerdir=/l'', ''upperdir=/var/lib/x/c1'']\<rparr>"
    by (simp add: ev)
  have 2: "index (Mount_Options \<lparr>Mount_Type = ''overlay'',
             Mount_Options = [''lowerdir=/l'', ''upperdir=/var/lib/x/c1'']\<rparr>) 1
     = Some ''upperdir=/var/lib/x/c1''"
    by (simp add: ev)
  have 3: "Allocate (projectIDPool q_c1_marked)
       = Some (MarkUsed (projectIDPool q_c1_marked) 1, 1, None)"
    by (simp add: ev)
  have 4: "xfs_quota_project (env_ok\<lparr>xfs_quota_limit :=
                  (\<lambda>w projid bsoft bhard. Some (ErrExternal ''exit status 1''))\<rparr>) []
             (strings_TrimPrefix ''upperdir=/var/lib/x/c1'' ''upperdir='') 1 = None"
    by (simp add: ev)
  have 5: "xfs_quota_limit (env_ok\<lparr>xfs_quota_limit :=
                  (\<lambda>w projid bsoft bhard. Some (ErrExternal ''exit status 1''))\<rparr>)
             ([] @ [XfsQuotaProject (strings_TrimPrefix ''upperdir=/var/lib/x/c1'' ''upperdir='') 1])
             1 (DefaultSoft (Quota (cfg q_c1_marked))) (DefaultSoft (Quota (cfg q_c1_marked)))
           = Some (ErrExternal ''exit status 1'')"
    by (simp add: ev)
  from handleTaskCreate_releases_on_failed_SetLimit [OF 1 2 3 4 5]
  show ?thesis using 1 2 3 by (simp add: ev)
qed

text \<open>
  C3. The identifier is claimed to stay in use when the state cannot be persisted after
  the allocation and the enforcement succeeded. \<open>handleTaskCreate\<close> releases it: with a
  write of the state file that fails, identifier 1 is free after the call, although the
  path is tagged with it and the in-memory entry of \<open>c1\<close> carries it.
\<close>

theorem handleTaskCreate_releases_on_failed_AddEntry:
  "handleTaskCreate (env_ok\<lparr>os_WriteFile := (\<lambda>w path data. Some (ErrExternal ''disk full''))\<rparr>)
      q_empty create_c1 []
   = Return (Some (ErrExternal ''disk full''),
       q_empty\<lparr>stateManager := \<lparr>filePath = ''/var/lib/quota/state.json'',
                  state = \<lparr>Entries = Some [''c1'' \<mapsto>
                    \<lparr>ContainerID = ''c1'', ProjectID = 1, Upperdir = ''/var/lib/x/c1''\<rparr>]\<rparr>\<rparr>,
               projectIDPool := Release (MarkUsed (NewProjectIDPool 1 100) 1) 1\<rparr>,
       [XfsQuotaProject ''/var/lib/x/c1'' 1, XfsQuotaLimit 1 ''5g'' ''5g'',
        OsWriteFile ''/var/lib/quota/state.json'' ''{entries}''])
   \<and> \<not> used_at (Release (MarkUsed (NewProjectIDPool 1 100) 1) 1) 1"
  by (simp add: handleTaskCreate_def ev)

text \<open>The other two creation sequences keep the identifier in use at the same input.\<close>

lemma restoreQuota_keeps_id_on_failed_AddEntry:
  "restoreQuota
      (env_ok\<lparr>os_WriteFile := (\<lambda>w path data. Some (ErrExternal ''disk full''))\<rparr>)
      q_empty ''c1'' ''/var/lib/x/c1'' []
   = Return (Some (ErrExternal ''disk full''),
       q_empty\<lparr>stateManager := \<lparr>filePath = ''/var/lib/quota/state.json'',
                  state = \<lparr>Entries = Some [''c1'' \<mapsto>
                    \<lparr>ContainerID = ''c1'', ProjectID = 1, Upperdir = ''/var/lib/x/c1''\<rparr>]\<rparr>\<rparr>,
               projectIDPool := MarkUsed (NewProjectIDPool 1 100) 1\<rparr>,
       [XfsQuotaProject ''/var/lib/x/c1'' 1, XfsQuotaLimit 1 ''5g'' ''10g'',
        OsWriteFile ''/var/lib/quota/state.json'' ''{entries}''])"
  by (simp add: restoreQuota_def ev)

lemma runEventListener_TaskCreate_keeps_id_on_failed_AddEntry:
  "runEventListener_TaskCreate
      (env_ok\<lparr>os_WriteFile := (\<lambda>w path data. Some (ErrExternal ''disk full''))\<rparr>)
      flat_5g_10g (stateManager q_empty) (NewProjectIDPool 1 100) create_c1 []
   = Return (\<lparr>filePath = ''/var/lib/quota/state.json'',
               state = \<lparr>Entries = Some [''c1'' \<mapsto>
                 \<lparr>ContainerID = ''c1'', ProjectID = 1, Upperdir = ''/var/lib/x/c1''\<rparr>]\<rparr>\<rparr>,
             MarkUsed (NewProjectIDPool 1 100) 1,
             [XfsQuotaProject ''/var/lib/x/c1'' 1, XfsQuotaLimit 1 ''5g'' ''10g'',
              OsWriteFile ''/var/lib/quota/state.json'' ''{entries}''])"
  by (simp add: runEventListener_TaskCreate_def ev)

text \<open>
  C9. \<open>SetProjectQuotaWithXFSQuota\<close> is claimed to get the default soft limit and the
  default hard limit. With the soft limit 5g and the hard limit 10g,
  \<open>handleTaskCreate\<close> sets the limit of the new project to 5g and 5g.
\<close>

theorem handleTaskCreate_passes_soft_limit_twice:
  "handleTaskCreate env_ok q_empty create_c1 []
   = Return (None,
       q_empty\<lparr>stateManager := \<lparr>filePath = ''/var/lib/quota/state.json'',
                  state = \<lparr>Entries = Some [''c1'' \<mapsto>
                    \<lparr>ContainerID = ''c1'', ProjectID = 1, Upperdir = ''/var/lib/x/c1''\<rparr>]\<rparr>\<rparr>,
               projectIDPool := MarkUsed (NewProjectIDPool 1 100) 1\<rparr>,
       [XfsQuotaProject ''/var/lib/x/c1'' 1, XfsQuotaLimit 1 ''5g'' ''5g'',
        OsWriteFile ''/var/lib/quota/state.json'' ''{entries}''])
   \<and> DefaultSoft (Quota (cfg q_empty)) = ''5g''
   \<and> DefaultHard (Quota (cfg q_empty)) = ''10g''"
  by (simp add: handleTaskCreate_def ev)

section \<open>The deletion sequence\<close>

text \<open>
  C4. The remaining cleanup is claimed to run when clearing the limit fails. With a
  failing \<open>xfs_quota\<close> limit command, \<open>handleTaskDelete\<close> returns the error at once:
  the entry of \<open>c1\<close> stays in the state manager, identifier 7 stays in use, and no file
  is written.
\<close>

theorem handleTaskDelete_stops_on_failed_clear:
  "handleTaskDelete
      (env_ok\<lparr>xfs_quota_limit := (\<lambda>w projid bsoft bhard. Some (ErrExternal ''exit status 1''))\<rparr>)
      q_c1_marked \<lparr>TaskDelete_ContainerID = ''c1''\<rparr> []
   = (Some (ErrExternal ''exit status 1''), q_c1_marked,
      [SnapshotMounts ''c1'', OsStat ''/var/lib/x/c1'', XfsIoStat ''/var/lib/x/c1'',
       XfsQuotaLimit 7 ''0'' ''0''])
   \<and> GetEntry (stateManager q_c1_marked) ''c1'' = (entry_c1, True)
   \<and> used_at (projectIDPool q_c1_marked) 7"
  by (simp add: handleTaskDelete_def GetProjectID_def ev)

text \<open>The deletion case of test/main.go goes on at the same input.\<close>

lemma runEventListener_TaskDelete_continues_after_failed_clear:
  "runEventListener_TaskDelete
      (env_ok\<lparr>xfs_quota_limit := (\<lambda>w projid bsoft bhard. Some (ErrExternal ''exit status 1''))\<rparr>)
      (stateManager q_c1) (MarkUsed (NewProjectIDPool 1 100) 7)
      \<lparr>TaskDelete_ContainerID = ''c1''\<rparr> []
   = (stateManager q_empty, Release (MarkUsed (NewProjectIDPool 1 100) 7) 7,
      [SnapshotMounts ''c1'', OsStat ''/var/lib/x/c1'', XfsIoStat ''/var/lib/x/c1'',
       XfsQuotaLimit 7 ''0'' ''0'',
       OsWriteFile ''/var/lib/quota/state.json'' ''{entries}''])"
  by (simp add: runEventListener_TaskDelete_def GetProjectID_def ev)

text \<open>What \<open>GetProjectID\<close> returns, by the outcome of the read-back.\<close>

lemma GetProjectID_readback_ok:
  assumes "xfs_io_stat env w path = Inr i" and "GetEntry sm c = (entry, exists)"
  shows "GetProjectID env c path sm w =
           ((i, if i \<noteq> 0 \<and> ProjectID entry \<noteq> i \<and> exists
                then Some (ErrWrongProjid c i (ProjectID entry)) else None),
            w @ [XfsIoStat path])"
  using assms by (simp add: GetProjectID_def GetProjectIDFromXFS_def)

lemma GetProjectID_readback_failed:
  assumes "xfs_io_stat env w path = Inl err" and "GetEntry sm c = (entry, exists)"
  shows "GetProjectID env c path sm w =
           ((0, if exists then None else Some (ErrFailedGetProjid c)), w @ [XfsIoStat path])"
  using assms by (simp add: GetProjectID_def GetProjectIDFromXFS_def)

text \<open>
  C5. The identifier to clear is claimed to be the one of the state manager whenever it
  has an entry. With the entry of \<open>c1\<close> holding 7 and a read-back that fails,
  \<open>GetProjectID\<close> returns 0 without an error; \<open>handleTaskDelete\<close> then clears the
  limit of project 0, removes the entry, and leaves 7 in use.
\<close>

theorem GetProjectID_ignores_entry_when_readback_fails:
  "GetProjectID (env_ok\<lparr>xfs_io_stat := (\<lambda>w path. Inl (ErrExternal ''exit status 1''))\<rparr>)
      ''c1'' ''/var/lib/x/c1'' (stateManager q_c1_marked) []
   = ((0, None), [XfsIoStat ''/var/lib/x/c1''])
   \<and> GetEntry (stateManager q_c1_marked) ''c1'' = (entry_c1, True)
   \<and> ProjectID entry_c1 = 7
   \<and> handleTaskDelete (env_ok\<lparr>xfs_io_stat := (\<lambda>w path. Inl (ErrExternal ''exit status 1''))\<rparr>)
        q_c1_marked \<lparr>TaskDelete_ContainerID = ''c1''\<rparr> []
     = (None, q_empty\<lparr>projectIDPool := MarkUsed (NewProjectIDPool 1 100) 7\<rparr>,
        [SnapshotMounts ''c1'', OsStat ''/var/lib/x/c1'', XfsIoStat ''/var/lib/x/c1'',
         XfsQuotaLimit 0 ''0'' ''0'',
         OsWriteFile ''/var/lib/quota/state.json'' ''{entries}''])"
  by (simp add: handleTaskDelete_def GetProjectID_def ev)

section \<open>The state synchronisation\<close>

text \<open>
  For a live container whose path exists and which has an entry, the loop of the
  handler's \<open>syncState\<close> goes on with the pool untouched; the loop of test/main.go marks
  the identifier of the entry.
\<close>

lemma syncState_loop_skips_persisted:
  assumes "GetSnapshotUpperdir env c w = ((upperdir, None), w1)"
    and "\<not> os_IsNotExist (os_Stat env w1 upperdir)"
    and "GetEntry (stateManager q) c = (entry, True)"
  shows "syncState_loop env q (c # containers) w =
           syncState_loop env q containers (w1 @ [OsStat upperdir])"
  using assms by simp

lemma main_syncState_loop_MarkUsed:
  assumes "GetSnapshotUpperdir env c w = ((upperdir, None), w1)"
    and "\<not> os_IsNotExist (os_Stat env w1 upperdir)"
    and "GetEntry sm c = (entry, True)"
  shows "main_syncState_loop env config sm pool (c # containers) w =
           main_syncState_loop env config sm (MarkUsed pool (ProjectID entry)) containers
             (w1 @ [OsStat upperdir])"
  using assms by simp

lemma main_syncState_marks_persisted_id:
  "main_syncState env_ok flat_5g_10g (stateManager q_c1) (NewProjectIDPool 1 100) [] =
     Return (None, stateManager q_c1, MarkUsed (NewProjectIDPool 1 100) 7,
       [ClientContainers, SnapshotMounts ''c1'', OsStat ''/var/lib/x/c1''])"
  by (simp add: main_syncState_def ev)

text \<open>
  After the handler's \<open>syncState\<close> on a pool over 7 to 100, the creation of a second
  container \<open>c2\<close> tags its path with 7, the identifier of the entry of \<open>c1\<close>.
\<close>

lemma handleTaskCreate_after_syncState_reuses_persisted_id:
  "syncState env_ok (q_c1\<lparr>projectIDPool := NewProjectIDPool 7 100\<rparr>) [] =
     Return (None, q_c1\<lparr>projectIDPool := NewProjectIDPool 7 100\<rparr>,
       [ClientContainers, SnapshotMounts ''c1'', OsStat ''/var/lib/x/c1''])
   \<and> handleTaskCreate env_ok (q_c1\<lparr>projectIDPool := NewProjectIDPool 7 100\<rparr>) create_c2 [] =
     Return (None,
       q_c1\<lparr>stateManager := \<lparr>filePath = ''/var/lib/quota/state.json'',
                state = \<lparr>Entries = Some [''c1'' \<mapsto> entry_c1, ''c2'' \<mapsto>
                  \<lparr>ContainerID = ''c2'', ProjectID = 7, Upperdir = ''/var/lib/x/c2''\<rparr>]\<rparr>\<rparr>,
            projectIDPool := MarkUsed (NewProjectIDPool 7 100) 7\<rparr>,
       [XfsQuotaProject ''/var/lib/x/c2'' 7, XfsQuotaLimit 7 ''5g'' ''5g'',
        OsWriteFile ''/var/lib/quota/state.json'' ''{entries}''])"
  by (simp add: syncState_def handleTaskCreate_def ev)

text \<open>
  C1. The synchronisation is claimed to call \<open>MarkUsed\<close> with the identifier of the
  persisted entry of a live container. With the entry of \<open>c1\<close> holding 7, \<open>c1\<close> live
  and its path on disk, the handler's \<open>syncState\<close> returns with the pool as it was:
  identifier 7 is not in use.
\<close>

theorem syncState_leaves_persisted_id_free:
  "syncState env_ok q_c1 [] =
     Return (None, q_c1, [ClientContainers, SnapshotMounts ''c1'', OsStat ''/var/lib/x/c1''])
   \<and> GetEntry (stateManager q_c1) ''c1'' = (entry_c1, True)
   \<and> ProjectID entry_c1 = 7
   \<and> \<not> used_at (projectIDPool q_c1) 7"
  by (simp add: syncState_def ev)

end
